theory Spec2Isabelle
  imports Main
begin

section \<open>The CWebKit header shims\<close>

text \<open>
  The repository is three C headers, \<^verbatim>\<open>JavaScriptCore.h\<close>, \<^verbatim>\<open>WPEWebKit.h\<close> and
  \<^verbatim>\<open>WebKitGTK.h\<close>. Each one is a short preprocessor program: an include guard, a probe
  of the toolchain with \<^verbatim>\<open>__has_include\<close>, conditional \<^verbatim>\<open>#include\<close> lines and the
  definition of a capability macro. The program that runs is the preprocessor, so the
  embedding is of preprocessing: each directive is a function on the state of the
  translation unit, each conditional directive is a HOL conditional, and each header is
  the composition of its directives in the order of its lines.
\<close>

subsection \<open>The toolchain and the translation unit\<close>

text \<open>
  What a header's directives can observe of the toolchain: whether the compiler knows the
  \<^verbatim>\<open>__has_include\<close> operator, and which header names resolve on the include search
  path. The same search answers \<^verbatim>\<open>__has_include(<h>)\<close> and \<^verbatim>\<open>#include <h>\<close>.
\<close>

record config =
  has_include_supported :: bool
  available :: "string set"

text \<open>A macro redefinition with a different replacement list is diagnosed and goes on.\<close>

datatype diag = MacroRedefined string

text \<open>An \<^verbatim>\<open>#include\<close> of a file that is not found ends the compilation.\<close>

datatype fatal = FileNotFound string

text \<open>
  The state of a translation unit while it is preprocessed: the object-like macros
  defined so far with their replacement text (the empty string for \<^verbatim>\<open>#define M\<close>), the
  native headers whose text has been included, in order, and the diagnostics issued.
  The text of a native header is not part of the repository: including one is recorded
  by its name, and stands for all of its declarations becoming visible.
\<close>

record tu =
  macros :: "string \<rightharpoonup> string"
  included :: "string list"
  diags :: "diag list"

type_synonym directive = "tu \<Rightarrow> fatal + tu"

definition fresh_tu :: tu where
  "fresh_tu = \<lparr>macros = Map.empty, included = [], diags = []\<rparr>"

subsection \<open>Directives\<close>

text \<open>
  \<^verbatim>\<open>#define M body\<close>. Defining a macro again with the same replacement text is
  allowed; with a different one the compiler reports it and the new definition replaces
  the old one.
\<close>

definition define_macro :: "string \<Rightarrow> string \<Rightarrow> directive" where
  "define_macro m body t =
     (case macros t m of
        None \<Rightarrow> Inr (t\<lparr>macros := (macros t)(m \<mapsto> body)\<rparr>)
      | Some old \<Rightarrow>
          if old = body then Inr t
          else Inr (t\<lparr>macros := (macros t)(m \<mapsto> body),
                      diags := diags t @ [MacroRedefined m]\<rparr>))"

text \<open>\<^verbatim>\<open>#include <h>\<close>: the header's text is included, or the file is not found.\<close>

definition include_header :: "config \<Rightarrow> string \<Rightarrow> directive" where
  "include_header cfg h t =
     (if h \<in> available cfg then Inr (t\<lparr>included := included t @ [h]\<rparr>)
      else Inl (FileNotFound h))"

text \<open>The value of \<^verbatim>\<open>__has_include(<h>)\<close> on a compiler that has the operator.\<close>

definition has_include :: "config \<Rightarrow> string \<Rightarrow> bool" where
  "has_include cfg h = (h \<in> available cfg)"

text \<open>A group of lines: the directives run in order, and a fatal error ends the run.\<close>

fun block :: "directive list \<Rightarrow> directive" where
  "block [] t = Inr t"
| "block (d # ds) t = (case d t of Inl e \<Rightarrow> Inl e | Inr t' \<Rightarrow> block ds t')"

text \<open>\<^verbatim>\<open>#ifndef M ... #endif\<close>: the group is skipped when \<open>M\<close> is defined.\<close>

definition ifndef :: "string \<Rightarrow> directive \<Rightarrow> directive" where
  "ifndef m body t = (if macros t m = None then body t else Inr t)"

text \<open>A conditional group with no lines for the case at hand.\<close>

definition nothing :: directive where
  "nothing t = Inr t"

subsection \<open>The three headers\<close>

text \<open>
  \<^verbatim>\<open>JavaScriptCore.h\<close>, lines 17 to 35. \<^verbatim>\<open>#ifdef __has_include\<close> holds exactly on a
  compiler that has the operator (the name is reserved to the implementation).
\<close>

definition JavaScriptCore_h :: "config \<Rightarrow> directive" where
  "JavaScriptCore_h cfg =
     ifndef ''CWebKit_JavaScriptCore_h'' (block [
       define_macro ''CWebKit_JavaScriptCore_h'' '''',
       (if has_include_supported cfg then
          (if has_include cfg ''JavaScriptCore/JavaScript.h'' then block [
             include_header cfg ''JavaScriptCore/JavaScript.h'',
             define_macro ''CWEBKIT_HAS_JAVASCRIPTCORE'' ''1'']
           else if has_include cfg ''jsc/jsc.h'' then block [
             include_header cfg ''jsc/jsc.h'',
             define_macro ''CWEBKIT_HAS_JAVASCRIPTCORE'' ''1'']
           else
             define_macro ''CWEBKIT_HAS_JAVASCRIPTCORE'' ''0'')
        else
          define_macro ''CWEBKIT_HAS_JAVASCRIPTCORE'' ''0'')])"

text \<open>\<^verbatim>\<open>WPEWebKit.h\<close>, lines 25 to 47: the probe of WPE, then the probe of GLib.\<close>

definition WPEWebKit_h :: "config \<Rightarrow> directive" where
  "WPEWebKit_h cfg =
     ifndef ''CWebKit_WPEWebKit_h'' (block [
       define_macro ''CWebKit_WPEWebKit_h'' '''',
       (if has_include_supported cfg then
          (if has_include cfg ''wpe/webkit.h'' then block [
             include_header cfg ''wpe/webkit.h'',
             define_macro ''CWEBKIT_HAS_WPE'' ''1'']
           else
             define_macro ''CWEBKIT_HAS_WPE'' ''0'')
        else
          define_macro ''CWEBKIT_HAS_WPE'' ''0''),
       (if has_include_supported cfg then
          (if has_include cfg ''glib.h'' then block [
             include_header cfg ''glib.h'',
             include_header cfg ''gio/gio.h'']
           else nothing)
        else nothing)])"

text \<open>\<^verbatim>\<open>WebKitGTK.h\<close>, lines 24 to 39.\<close>

definition WebKitGTK_h :: "config \<Rightarrow> directive" where
  "WebKitGTK_h cfg =
     ifndef ''CWebKit_WebKitGTK_h'' (block [
       define_macro ''CWebKit_WebKitGTK_h'' '''',
       (if has_include_supported cfg then
          (if has_include cfg ''webkit2/webkit2.h'' then block [
             include_header cfg ''webkit2/webkit2.h'',
             include_header cfg ''gtk/gtk.h'',
             define_macro ''CWEBKIT_HAS_GTK'' ''1'']
           else
             define_macro ''CWEBKIT_HAS_GTK'' ''0'')
        else
          define_macro ''CWEBKIT_HAS_GTK'' ''0'')])"

subsection \<open>Observations of a run\<close>

text \<open>
  What a consumer of a header can observe once the header has been processed: the
  replacement text of a macro, the headers whose declarations are visible, the
  diagnostics, and whether the compilation went on at all.
\<close>

definition macro_value :: "string \<Rightarrow> fatal + tu \<Rightarrow> string option" where
  "macro_value m r = (case r of Inl e \<Rightarrow> None | Inr t \<Rightarrow> macros t m)"

definition inclusions :: "fatal + tu \<Rightarrow> string list" where
  "inclusions r = (case r of Inl e \<Rightarrow> [] | Inr t \<Rightarrow> included t)"

definition visible :: "fatal + tu \<Rightarrow> string set" where
  "visible r = set (inclusions r)"

definition completes :: "fatal + tu \<Rightarrow> bool" where
  "completes r = (case r of Inl e \<Rightarrow> False | Inr t \<Rightarrow> True)"

definition diagnostics :: "fatal + tu \<Rightarrow> diag list" where
  "diagnostics r = (case r of Inl e \<Rightarrow> [] | Inr t \<Rightarrow> diags t)"

text \<open>A header is found when the compiler has the probe and the probe locates it.\<close>

definition found :: "config \<Rightarrow> string \<Rightarrow> bool" where
  "found cfg h = (has_include_supported cfg \<and> has_include cfg h)"

text \<open>Including a header a second time, after a first inclusion.\<close>

definition twice :: "directive \<Rightarrow> directive" where
  "twice d t = (case d t of Inl e \<Rightarrow> Inl e | Inr t' \<Rightarrow> d t')"


text \<open>
  The observable outcome of a header in a translation unit that starts empty: the value
  of its capability macro and the set of headers it has included.
\<close>

definition outcome :: "string \<Rightarrow> (config \<Rightarrow> directive) \<Rightarrow> config \<Rightarrow> string option \<times> string set" where
  "outcome m shim cfg = (macro_value m (shim cfg fresh_tu), visible (shim cfg fresh_tu))"

text \<open>
  Two toolchains agree on a set of header names: the same compiler capability, and the
  same answer of the search path for each name of the set.
\<close>

definition agree_on :: "string set \<Rightarrow> config \<Rightarrow> config \<Rightarrow> bool" where
  "agree_on H c1 c2 =
     (has_include_supported c1 = has_include_supported c2 \<and>
      available c1 \<inter> H = available c2 \<inter> H)"

section \<open>Properties\<close>

lemmas header_defs = JavaScriptCore_h_def WPEWebKit_h_def WebKitGTK_h_def

lemmas directive_defs =
  ifndef_def define_macro_def include_header_def has_include_def nothing_def

lemmas observation_defs =
  macro_value_def inclusions_def visible_def completes_def diagnostics_def found_def

lemma agree_on_mem:
  "agree_on H c1 c2 \<Longrightarrow> h \<in> H \<Longrightarrow> (h \<in> available c1) = (h \<in> available c2)"
  by (auto simp: agree_on_def)

lemma include_header_agree:
  "(h \<in> available c1) = (h \<in> available c2) \<Longrightarrow> include_header c1 h = include_header c2 h"
  by (rule ext) (simp add: include_header_def)

lemma agree_on_compiler:
  "agree_on H c1 c2 \<Longrightarrow> has_include_supported c1 = has_include_supported c2"
  by (simp add: agree_on_def)

text \<open>
  When a header's run ends in a fatal error: never for \<^verbatim>\<open>JavaScriptCore.h\<close>, whose
  two \<^verbatim>\<open>#include\<close> lines each sit under the probe of the same name; for the other two
  exactly when a header included without a probe of its own is missing.
\<close>

lemma JavaScriptCore_h_completes: "completes (JavaScriptCore_h cfg t)"
  by (simp add: header_defs directive_defs observation_defs split: option.splits)

lemma WPEWebKit_h_completes_iff:
  "macros t ''CWebKit_WPEWebKit_h'' = None \<Longrightarrow>
   completes (WPEWebKit_h cfg t) =
     (found cfg ''glib.h'' \<longrightarrow> ''gio/gio.h'' \<in> available cfg)"
  by (simp add: header_defs directive_defs observation_defs split: option.splits)

lemma WebKitGTK_h_completes_iff:
  "macros t ''CWebKit_WebKitGTK_h'' = None \<Longrightarrow>
   completes (WebKitGTK_h cfg t) =
     (found cfg ''webkit2/webkit2.h'' \<longrightarrow> ''gtk/gtk.h'' \<in> available cfg)"
  by (simp add: header_defs directive_defs observation_defs split: option.splits)

subsection \<open>The capability macro records the probe\<close>

text \<open>
  Claim C1, as the claim states it, fails for \<^verbatim>\<open>WebKitGTK.h\<close> and for
  \<^verbatim>\<open>WPEWebKit.h\<close>. With \<^verbatim>\<open>webkit2/webkit2.h\<close> on the search path and
  \<^verbatim>\<open>gtk/gtk.h\<close> not, the probe finds the native header, line 30 of
  \<^verbatim>\<open>WebKitGTK.h\<close> includes a file that is not found, and \<^verbatim>\<open>CWEBKIT_HAS_GTK\<close> is
  never defined to \<open>1\<close>. With \<^verbatim>\<open>wpe/webkit.h\<close> and \<^verbatim>\<open>glib.h\<close> on the search path
  and \<^verbatim>\<open>gio/gio.h\<close> not, the same happens on line 43 of \<^verbatim>\<open>WPEWebKit.h\<close>.
\<close>

theorem capability_iff_found_counterexample:
  "found \<lparr>has_include_supported = True, available = {''webkit2/webkit2.h''}\<rparr>
     ''webkit2/webkit2.h'' \<and>
   WebKitGTK_h \<lparr>has_include_supported = True, available = {''webkit2/webkit2.h''}\<rparr>
     fresh_tu = Inl (FileNotFound ''gtk/gtk.h'') \<and>
   macro_value ''CWEBKIT_HAS_GTK'' (WebKitGTK_h
     \<lparr>has_include_supported = True, available = {''webkit2/webkit2.h''}\<rparr> fresh_tu)
       \<noteq> Some ''1'' \<and>
   found \<lparr>has_include_supported = True, available = {''wpe/webkit.h'', ''glib.h''}\<rparr>
     ''wpe/webkit.h'' \<and>
   WPEWebKit_h \<lparr>has_include_supported = True, available = {''wpe/webkit.h'', ''glib.h''}\<rparr>
     fresh_tu = Inl (FileNotFound ''gio/gio.h'') \<and>
   macro_value ''CWEBKIT_HAS_WPE'' (WPEWebKit_h
     \<lparr>has_include_supported = True, available = {''wpe/webkit.h'', ''glib.h''}\<rparr> fresh_tu)
       \<noteq> Some ''1''"
  by (simp add: header_defs directive_defs observation_defs fresh_tu_def)

text \<open>
  Claim C1, amended. Take a translation unit that has not defined the header's guard,
  and a toolchain on which a header that the shim includes under the probe of another
  is available whenever that probe succeeds: \<^verbatim>\<open>gio/gio.h\<close> when \<^verbatim>\<open>glib.h\<close> is
  found, for \<^verbatim>\<open>WPEWebKit.h\<close>; \<^verbatim>\<open>gtk/gtk.h\<close> when \<^verbatim>\<open>webkit2/webkit2.h\<close> is found,
  for \<^verbatim>\<open>WebKitGTK.h\<close>; nothing to ask for \<^verbatim>\<open>JavaScriptCore.h\<close>. Then the header
  is processed to the end, and its capability macro is \<open>1\<close> if and only if the probe
  found the native header: either of the two candidates for JavaScriptCore,
  \<^verbatim>\<open>wpe/webkit.h\<close> for WPE, \<^verbatim>\<open>webkit2/webkit2.h\<close> for GTK.
\<close>

theorem capability_iff_found:
  "(macros t ''CWebKit_JavaScriptCore_h'' = None \<longrightarrow>
      completes (JavaScriptCore_h cfg t) \<and>
      (macro_value ''CWEBKIT_HAS_JAVASCRIPTCORE'' (JavaScriptCore_h cfg t) = Some ''1'') =
        (found cfg ''JavaScriptCore/JavaScript.h'' \<or> found cfg ''jsc/jsc.h'')) \<and>
   (macros t ''CWebKit_WPEWebKit_h'' = None \<and>
    (found cfg ''glib.h'' \<longrightarrow> ''gio/gio.h'' \<in> available cfg) \<longrightarrow>
      completes (WPEWebKit_h cfg t) \<and>
      (macro_value ''CWEBKIT_HAS_WPE'' (WPEWebKit_h cfg t) = Some ''1'') =
        found cfg ''wpe/webkit.h'') \<and>
   (macros t ''CWebKit_WebKitGTK_h'' = None \<and>
    (found cfg ''webkit2/webkit2.h'' \<longrightarrow> ''gtk/gtk.h'' \<in> available cfg) \<longrightarrow>
      completes (WebKitGTK_h cfg t) \<and>
      (macro_value ''CWEBKIT_HAS_GTK'' (WebKitGTK_h cfg t) = Some ''1'') =
        found cfg ''webkit2/webkit2.h'')"
proof (intro conjI impI)
  assume "macros t ''CWebKit_JavaScriptCore_h'' = None"
  then show "(macro_value ''CWEBKIT_HAS_JAVASCRIPTCORE'' (JavaScriptCore_h cfg t) = Some ''1'') =
      (found cfg ''JavaScriptCore/JavaScript.h'' \<or> found cfg ''jsc/jsc.h'')"
    by (simp add: header_defs directive_defs observation_defs split: option.splits)
  show "completes (JavaScriptCore_h cfg t)"
    by (rule JavaScriptCore_h_completes)
next
  assume w: "macros t ''CWebKit_WPEWebKit_h'' = None \<and>
    (found cfg ''glib.h'' \<longrightarrow> ''gio/gio.h'' \<in> available cfg)"
  then show "completes (WPEWebKit_h cfg t)"
    by (simp add: WPEWebKit_h_completes_iff)
  from w show "(macro_value ''CWEBKIT_HAS_WPE'' (WPEWebKit_h cfg t) = Some ''1'') =
      found cfg ''wpe/webkit.h''"
    by (simp add: header_defs directive_defs observation_defs split: option.splits)
next
  assume g: "macros t ''CWebKit_WebKitGTK_h'' = None \<and>
    (found cfg ''webkit2/webkit2.h'' \<longrightarrow> ''gtk/gtk.h'' \<in> available cfg)"
  then show "completes (WebKitGTK_h cfg t)"
    by (simp add: WebKitGTK_h_completes_iff)
  from g show "(macro_value ''CWEBKIT_HAS_GTK'' (WebKitGTK_h cfg t) = Some ''1'') =
      found cfg ''webkit2/webkit2.h''"
    by (simp add: header_defs directive_defs observation_defs split: option.splits)
qed

theorem capability_iff_found_witness:
  "found
     (\<lparr>has_include_supported = True, available =
        {''jsc/jsc.h'', ''wpe/webkit.h'', ''glib.h'', ''gio/gio.h'',
         ''webkit2/webkit2.h'', ''gtk/gtk.h''}\<rparr>)
     ''jsc/jsc.h'' \<and>
   found
     (\<lparr>has_include_supported = True, available =
        {''jsc/jsc.h'', ''wpe/webkit.h'', ''glib.h'', ''gio/gio.h'',
         ''webkit2/webkit2.h'', ''gtk/gtk.h''}\<rparr>)
     ''wpe/webkit.h'' \<and>
   found
     (\<lparr>has_include_supported = True, available =
        {''jsc/jsc.h'', ''wpe/webkit.h'', ''glib.h'', ''gio/gio.h'',
         ''webkit2/webkit2.h'', ''gtk/gtk.h''}\<rparr>)
     ''webkit2/webkit2.h'' \<and>
   completes (JavaScriptCore_h
     (\<lparr>has_include_supported = True, available =
        {''jsc/jsc.h'', ''wpe/webkit.h'', ''glib.h'', ''gio/gio.h'',
         ''webkit2/webkit2.h'', ''gtk/gtk.h''}\<rparr>)
     fresh_tu) \<and>
   completes (WPEWebKit_h
     (\<lparr>has_include_supported = True, available =
        {''jsc/jsc.h'', ''wpe/webkit.h'', ''glib.h'', ''gio/gio.h'',
         ''webkit2/webkit2.h'', ''gtk/gtk.h''}\<rparr>)
     fresh_tu) \<and>
   completes (WebKitGTK_h
     (\<lparr>has_include_supported = True, available =
        {''jsc/jsc.h'', ''wpe/webkit.h'', ''glib.h'', ''gio/gio.h'',
         ''webkit2/webkit2.h'', ''gtk/gtk.h''}\<rparr>)
     fresh_tu) \<and>
   macro_value ''CWEBKIT_HAS_JAVASCRIPTCORE'' (JavaScriptCore_h
     (\<lparr>has_include_supported = True, available =
        {''jsc/jsc.h'', ''wpe/webkit.h'', ''glib.h'', ''gio/gio.h'',
         ''webkit2/webkit2.h'', ''gtk/gtk.h''}\<rparr>)
     fresh_tu) = Some ''1'' \<and>
   macro_value ''CWEBKIT_HAS_WPE'' (WPEWebKit_h
     (\<lparr>has_include_supported = True, available =
        {''jsc/jsc.h'', ''wpe/webkit.h'', ''glib.h'', ''gio/gio.h'',
         ''webkit2/webkit2.h'', ''gtk/gtk.h''}\<rparr>)
     fresh_tu) = Some ''1'' \<and>
   macro_value ''CWEBKIT_HAS_GTK'' (WebKitGTK_h
     (\<lparr>has_include_supported = True, available =
        {''jsc/jsc.h'', ''wpe/webkit.h'', ''glib.h'', ''gio/gio.h'',
         ''webkit2/webkit2.h'', ''gtk/gtk.h''}\<rparr>)
     fresh_tu) = Some ''1'' \<and>
   completes (JavaScriptCore_h
     \<lparr>has_include_supported = True, available = {}\<rparr> fresh_tu) \<and>
   completes (WPEWebKit_h
     \<lparr>has_include_supported = True, available = {}\<rparr> fresh_tu) \<and>
   completes (WebKitGTK_h
     \<lparr>has_include_supported = True, available = {}\<rparr> fresh_tu) \<and>
   macro_value ''CWEBKIT_HAS_JAVASCRIPTCORE'' (JavaScriptCore_h
     \<lparr>has_include_supported = True, available = {}\<rparr> fresh_tu) \<noteq> Some ''1'' \<and>
   macro_value ''CWEBKIT_HAS_WPE'' (WPEWebKit_h
     \<lparr>has_include_supported = True, available = {}\<rparr> fresh_tu) \<noteq> Some ''1'' \<and>
   macro_value ''CWEBKIT_HAS_GTK'' (WebKitGTK_h
     \<lparr>has_include_supported = True, available = {}\<rparr> fresh_tu) \<noteq> Some ''1''"
  using capability_iff_found [of fresh_tu "\<lparr>has_include_supported = True, available =
        {''jsc/jsc.h'', ''wpe/webkit.h'', ''glib.h'', ''gio/gio.h'',
         ''webkit2/webkit2.h'', ''gtk/gtk.h''}\<rparr>"]
    capability_iff_found [of fresh_tu "\<lparr>has_include_supported = True, available = {}\<rparr>"]
  by (simp add: fresh_tu_def found_def has_include_def)

subsection \<open>What becomes visible when the macro is 1\<close>

text \<open>
  Claim C2, as the claim states it, fails for \<^verbatim>\<open>WPEWebKit.h\<close>: with
  \<^verbatim>\<open>wpe/webkit.h\<close> on the search path and \<^verbatim>\<open>glib.h\<close> not, the header is processed
  without error, \<^verbatim>\<open>CWEBKIT_HAS_WPE\<close> is \<open>1\<close>, and no GLib header has been included.
\<close>

theorem visible_when_capable_counterexample:
  "completes (WPEWebKit_h
     \<lparr>has_include_supported = True, available = {''wpe/webkit.h''}\<rparr> fresh_tu) \<and>
   macro_value ''CWEBKIT_HAS_WPE'' (WPEWebKit_h
     \<lparr>has_include_supported = True, available = {''wpe/webkit.h''}\<rparr> fresh_tu) = Some ''1'' \<and>
   visible (WPEWebKit_h
     \<lparr>has_include_supported = True, available = {''wpe/webkit.h''}\<rparr> fresh_tu)
       = {''wpe/webkit.h''} \<and>
   ''glib.h'' \<notin> visible (WPEWebKit_h
     \<lparr>has_include_supported = True, available = {''wpe/webkit.h''}\<rparr> fresh_tu) \<and>
   ''gio/gio.h'' \<notin> visible (WPEWebKit_h
     \<lparr>has_include_supported = True, available = {''wpe/webkit.h''}\<rparr> fresh_tu)"
  by (simp add: header_defs directive_defs observation_defs fresh_tu_def)

text \<open>
  Claim C2, amended. In a translation unit that has not defined the header's guard,
  when the capability macro is \<open>1\<close> after the header has been processed, the native
  header that the probe found is visible: for JavaScriptCore the first candidate if it
  was found and the second otherwise; for GTK \<^verbatim>\<open>webkit2/webkit2.h\<close> together with
  \<^verbatim>\<open>gtk/gtk.h\<close>; for WPE \<^verbatim>\<open>wpe/webkit.h\<close>, and \<^verbatim>\<open>glib.h\<close> and \<^verbatim>\<open>gio/gio.h\<close> as
  well when the separate probe of \<^verbatim>\<open>glib.h\<close> found it.
\<close>

theorem visible_when_capable:
  "(macros t ''CWebKit_JavaScriptCore_h'' = None \<and>
    macro_value ''CWEBKIT_HAS_JAVASCRIPTCORE'' (JavaScriptCore_h cfg t) = Some ''1'' \<longrightarrow>
      (if found cfg ''JavaScriptCore/JavaScript.h''
       then ''JavaScriptCore/JavaScript.h'' \<in> visible (JavaScriptCore_h cfg t)
       else ''jsc/jsc.h'' \<in> visible (JavaScriptCore_h cfg t))) \<and>
   (macros t ''CWebKit_WPEWebKit_h'' = None \<and>
    macro_value ''CWEBKIT_HAS_WPE'' (WPEWebKit_h cfg t) = Some ''1'' \<longrightarrow>
      ''wpe/webkit.h'' \<in> visible (WPEWebKit_h cfg t) \<and>
      (found cfg ''glib.h'' \<longrightarrow>
         ''glib.h'' \<in> visible (WPEWebKit_h cfg t) \<and>
         ''gio/gio.h'' \<in> visible (WPEWebKit_h cfg t))) \<and>
   (macros t ''CWebKit_WebKitGTK_h'' = None \<and>
    macro_value ''CWEBKIT_HAS_GTK'' (WebKitGTK_h cfg t) = Some ''1'' \<longrightarrow>
      ''webkit2/webkit2.h'' \<in> visible (WebKitGTK_h cfg t) \<and>
      ''gtk/gtk.h'' \<in> visible (WebKitGTK_h cfg t))"
proof (intro conjI impI)
  assume "macros t ''CWebKit_JavaScriptCore_h'' = None \<and>
    macro_value ''CWEBKIT_HAS_JAVASCRIPTCORE'' (JavaScriptCore_h cfg t) = Some ''1''"
  then show "if found cfg ''JavaScriptCore/JavaScript.h''
       then ''JavaScriptCore/JavaScript.h'' \<in> visible (JavaScriptCore_h cfg t)
       else ''jsc/jsc.h'' \<in> visible (JavaScriptCore_h cfg t)"
    by (simp add: header_defs directive_defs observation_defs split: option.splits if_splits)
next
  assume w: "macros t ''CWebKit_WPEWebKit_h'' = None \<and>
    macro_value ''CWEBKIT_HAS_WPE'' (WPEWebKit_h cfg t) = Some ''1''"
  then show "''wpe/webkit.h'' \<in> visible (WPEWebKit_h cfg t)"
    by (simp add: header_defs directive_defs observation_defs split: option.splits if_splits)
  assume "found cfg ''glib.h''"
  with w show "''glib.h'' \<in> visible (WPEWebKit_h cfg t)"
    and "''gio/gio.h'' \<in> visible (WPEWebKit_h cfg t)"
    by (simp_all add: header_defs directive_defs observation_defs split: option.splits if_splits)
next
  assume "macros t ''CWebKit_WebKitGTK_h'' = None \<and>
    macro_value ''CWEBKIT_HAS_GTK'' (WebKitGTK_h cfg t) = Some ''1''"
  then show "''webkit2/webkit2.h'' \<in> visible (WebKitGTK_h cfg t)"
    and "''gtk/gtk.h'' \<in> visible (WebKitGTK_h cfg t)"
    by (simp_all add: header_defs directive_defs observation_defs split: option.splits if_splits)
qed

theorem visible_when_capable_witness:
  "macro_value ''CWEBKIT_HAS_JAVASCRIPTCORE'' (JavaScriptCore_h
     \<lparr>has_include_supported = True, available =
        {''jsc/jsc.h'', ''wpe/webkit.h'', ''glib.h'', ''gio/gio.h'',
         ''webkit2/webkit2.h'', ''gtk/gtk.h''}\<rparr> fresh_tu) = Some ''1'' \<and>
   macro_value ''CWEBKIT_HAS_WPE'' (WPEWebKit_h
     \<lparr>has_include_supported = True, available =
        {''jsc/jsc.h'', ''wpe/webkit.h'', ''glib.h'', ''gio/gio.h'',
         ''webkit2/webkit2.h'', ''gtk/gtk.h''}\<rparr> fresh_tu) = Some ''1'' \<and>
   macro_value ''CWEBKIT_HAS_GTK'' (WebKitGTK_h
     \<lparr>has_include_supported = True, available =
        {''jsc/jsc.h'', ''wpe/webkit.h'', ''glib.h'', ''gio/gio.h'',
         ''webkit2/webkit2.h'', ''gtk/gtk.h''}\<rparr> fresh_tu) = Some ''1'' \<and>
   found \<lparr>has_include_supported = True, available =
        {''jsc/jsc.h'', ''wpe/webkit.h'', ''glib.h'', ''gio/gio.h'',
         ''webkit2/webkit2.h'', ''gtk/gtk.h''}\<rparr> ''glib.h'' \<and>
   ''jsc/jsc.h'' \<in> visible (JavaScriptCore_h
     \<lparr>has_include_supported = True, available =
        {''jsc/jsc.h'', ''wpe/webkit.h'', ''glib.h'', ''gio/gio.h'',
         ''webkit2/webkit2.h'', ''gtk/gtk.h''}\<rparr> fresh_tu) \<and>
   ''gio/gio.h'' \<in> visible (WPEWebKit_h
     \<lparr>has_include_supported = True, available =
        {''jsc/jsc.h'', ''wpe/webkit.h'', ''glib.h'', ''gio/gio.h'',
         ''webkit2/webkit2.h'', ''gtk/gtk.h''}\<rparr> fresh_tu) \<and>
   ''gtk/gtk.h'' \<in> visible (WebKitGTK_h
     \<lparr>has_include_supported = True, available =
        {''jsc/jsc.h'', ''wpe/webkit.h'', ''glib.h'', ''gio/gio.h'',
         ''webkit2/webkit2.h'', ''gtk/gtk.h''}\<rparr> fresh_tu)"
  using visible_when_capable
    [of fresh_tu "\<lparr>has_include_supported = True, available =
        {''jsc/jsc.h'', ''wpe/webkit.h'', ''glib.h'', ''gio/gio.h'',
         ''webkit2/webkit2.h'', ''gtk/gtk.h''}\<rparr>"]
  by (simp add: header_defs directive_defs macro_value_def found_def fresh_tu_def)

subsection \<open>Independence of the three headers\<close>

text \<open>
  Claim C3. Take two toolchains with the same compiler that agree on the headers one
  shim names, and differ in any way on every other header, those of the other two
  libraries among them. Then the shim runs to the same result on both, from any state
  of the translation unit; in particular its capability macro has the same value.
\<close>

theorem shims_independent:
  "(agree_on {''JavaScriptCore/JavaScript.h'', ''jsc/jsc.h''} c1 c2 \<longrightarrow>
      JavaScriptCore_h c1 t = JavaScriptCore_h c2 t \<and>
      macro_value ''CWEBKIT_HAS_JAVASCRIPTCORE'' (JavaScriptCore_h c1 t) =
        macro_value ''CWEBKIT_HAS_JAVASCRIPTCORE'' (JavaScriptCore_h c2 t)) \<and>
   (agree_on {''wpe/webkit.h'', ''glib.h'', ''gio/gio.h''} c1 c2 \<longrightarrow>
      WPEWebKit_h c1 t = WPEWebKit_h c2 t \<and>
      macro_value ''CWEBKIT_HAS_WPE'' (WPEWebKit_h c1 t) =
        macro_value ''CWEBKIT_HAS_WPE'' (WPEWebKit_h c2 t)) \<and>
   (agree_on {''webkit2/webkit2.h'', ''gtk/gtk.h''} c1 c2 \<longrightarrow>
      WebKitGTK_h c1 t = WebKitGTK_h c2 t \<and>
      macro_value ''CWEBKIT_HAS_GTK'' (WebKitGTK_h c1 t) =
        macro_value ''CWEBKIT_HAS_GTK'' (WebKitGTK_h c2 t))"
proof -
  have jsc: "JavaScriptCore_h c1 t = JavaScriptCore_h c2 t"
    if a: "agree_on {''JavaScriptCore/JavaScript.h'', ''jsc/jsc.h''} c1 c2"
  proof -
    have "include_header c1 ''JavaScriptCore/JavaScript.h'' =
          include_header c2 ''JavaScriptCore/JavaScript.h''"
      and "include_header c1 ''jsc/jsc.h'' = include_header c2 ''jsc/jsc.h''"
      and "has_include c1 ''JavaScriptCore/JavaScript.h'' =
           has_include c2 ''JavaScriptCore/JavaScript.h''"
      and "has_include c1 ''jsc/jsc.h'' = has_include c2 ''jsc/jsc.h''"
      using agree_on_mem [OF a] by (simp_all add: has_include_def include_header_agree [of _ c1 c2])
    then show ?thesis
      using agree_on_compiler [OF a] by (simp add: JavaScriptCore_h_def)
  qed
  have wpe: "WPEWebKit_h c1 t = WPEWebKit_h c2 t"
    if a: "agree_on {''wpe/webkit.h'', ''glib.h'', ''gio/gio.h''} c1 c2"
  proof -
    have "include_header c1 ''wpe/webkit.h'' = include_header c2 ''wpe/webkit.h''"
      and "include_header c1 ''glib.h'' = include_header c2 ''glib.h''"
      and "include_header c1 ''gio/gio.h'' = include_header c2 ''gio/gio.h''"
      and "has_include c1 ''wpe/webkit.h'' = has_include c2 ''wpe/webkit.h''"
      and "has_include c1 ''glib.h'' = has_include c2 ''glib.h''"
      using agree_on_mem [OF a] by (simp_all add: has_include_def include_header_agree [of _ c1 c2])
    then show ?thesis
      using agree_on_compiler [OF a] by (simp add: WPEWebKit_h_def)
  qed
  have gtk: "WebKitGTK_h c1 t = WebKitGTK_h c2 t"
    if a: "agree_on {''webkit2/webkit2.h'', ''gtk/gtk.h''} c1 c2"
  proof -
    have "include_header c1 ''webkit2/webkit2.h'' = include_header c2 ''webkit2/webkit2.h''"
      and "include_header c1 ''gtk/gtk.h'' = include_header c2 ''gtk/gtk.h''"
      and "has_include c1 ''webkit2/webkit2.h'' = has_include c2 ''webkit2/webkit2.h''"
      using agree_on_mem [OF a] by (simp_all add: has_include_def include_header_agree [of _ c1 c2])
    then show ?thesis
      using agree_on_compiler [OF a] by (simp add: WebKitGTK_h_def)
  qed
  from jsc wpe gtk show ?thesis by simp
qed

theorem shims_independent_witness:
  "agree_on {''JavaScriptCore/JavaScript.h'', ''jsc/jsc.h''}
     \<lparr>has_include_supported = True, available = {''jsc/jsc.h'', ''wpe/webkit.h''}\<rparr>
     \<lparr>has_include_supported = True,
      available = {''jsc/jsc.h'', ''glib.h'', ''webkit2/webkit2.h''}\<rparr> \<and>
   macro_value ''CWEBKIT_HAS_JAVASCRIPTCORE'' (JavaScriptCore_h
     \<lparr>has_include_supported = True, available = {''jsc/jsc.h'', ''wpe/webkit.h''}\<rparr>
     fresh_tu) =
   macro_value ''CWEBKIT_HAS_JAVASCRIPTCORE'' (JavaScriptCore_h
     \<lparr>has_include_supported = True,
      available = {''jsc/jsc.h'', ''glib.h'', ''webkit2/webkit2.h''}\<rparr> fresh_tu) \<and>
   agree_on {''wpe/webkit.h'', ''glib.h'', ''gio/gio.h''}
     \<lparr>has_include_supported = True, available = {''wpe/webkit.h''}\<rparr>
     \<lparr>has_include_supported = True,
      available = {''wpe/webkit.h'', ''jsc/jsc.h'', ''webkit2/webkit2.h'', ''gtk/gtk.h''}\<rparr> \<and>
   macro_value ''CWEBKIT_HAS_WPE'' (WPEWebKit_h
     \<lparr>has_include_supported = True, available = {''wpe/webkit.h''}\<rparr> fresh_tu) =
   macro_value ''CWEBKIT_HAS_WPE'' (WPEWebKit_h
     \<lparr>has_include_supported = True,
      available = {''wpe/webkit.h'', ''jsc/jsc.h'', ''webkit2/webkit2.h'', ''gtk/gtk.h''}\<rparr>
     fresh_tu) \<and>
   agree_on {''webkit2/webkit2.h'', ''gtk/gtk.h''}
     \<lparr>has_include_supported = True, available = {''JavaScriptCore/JavaScript.h''}\<rparr>
     \<lparr>has_include_supported = True,
      available = {''wpe/webkit.h'', ''glib.h'', ''gio/gio.h''}\<rparr> \<and>
   macro_value ''CWEBKIT_HAS_GTK'' (WebKitGTK_h
     \<lparr>has_include_supported = True, available = {''JavaScriptCore/JavaScript.h''}\<rparr>
     fresh_tu) =
   macro_value ''CWEBKIT_HAS_GTK'' (WebKitGTK_h
     \<lparr>has_include_supported = True,
      available = {''wpe/webkit.h'', ''glib.h'', ''gio/gio.h''}\<rparr> fresh_tu)"
proof -
  have j: "agree_on {''JavaScriptCore/JavaScript.h'', ''jsc/jsc.h''}
     \<lparr>has_include_supported = True, available = {''jsc/jsc.h'', ''wpe/webkit.h''}\<rparr>
     \<lparr>has_include_supported = True,
      available = {''jsc/jsc.h'', ''glib.h'', ''webkit2/webkit2.h''}\<rparr>"
    by (simp add: agree_on_def)
  have w: "agree_on {''wpe/webkit.h'', ''glib.h'', ''gio/gio.h''}
     \<lparr>has_include_supported = True, available = {''wpe/webkit.h''}\<rparr>
     \<lparr>has_include_supported = True,
      available = {''wpe/webkit.h'', ''jsc/jsc.h'', ''webkit2/webkit2.h'', ''gtk/gtk.h''}\<rparr>"
    by (simp add: agree_on_def)
  have g: "agree_on {''webkit2/webkit2.h'', ''gtk/gtk.h''}
     \<lparr>has_include_supported = True, available = {''JavaScriptCore/JavaScript.h''}\<rparr>
     \<lparr>has_include_supported = True,
      available = {''wpe/webkit.h'', ''glib.h'', ''gio/gio.h''}\<rparr>"
    by (simp add: agree_on_def)
  show ?thesis
    using j w g
      shims_independent [of
        "\<lparr>has_include_supported = True, available = {''jsc/jsc.h'', ''wpe/webkit.h''}\<rparr>"
        "\<lparr>has_include_supported = True,
          available = {''jsc/jsc.h'', ''glib.h'', ''webkit2/webkit2.h''}\<rparr>" fresh_tu]
      shims_independent [of
        "\<lparr>has_include_supported = True, available = {''wpe/webkit.h''}\<rparr>"
        "\<lparr>has_include_supported = True,
          available = {''wpe/webkit.h'', ''jsc/jsc.h'', ''webkit2/webkit2.h'', ''gtk/gtk.h''}\<rparr>"
        fresh_tu]
      shims_independent [of
        "\<lparr>has_include_supported = True, available = {''JavaScriptCore/JavaScript.h''}\<rparr>"
        "\<lparr>has_include_supported = True,
          available = {''wpe/webkit.h'', ''glib.h'', ''gio/gio.h''}\<rparr>" fresh_tu]
    by blast
qed

subsection \<open>Including a header twice\<close>

text \<open>
  Claim C4. For every toolchain and every state of the translation unit, processing a
  header a second time right after the first leaves everything as the first inclusion
  left it: the same macros, the same included headers and the same diagnostics, so no
  redefinition is reported; and a first inclusion that ended the compilation is not
  followed by a second.
\<close>

theorem inclusion_idempotent:
  "twice (JavaScriptCore_h cfg) t = JavaScriptCore_h cfg t \<and>
   twice (WPEWebKit_h cfg) t = WPEWebKit_h cfg t \<and>
   twice (WebKitGTK_h cfg) t = WebKitGTK_h cfg t"
proof (intro conjI)
  show "twice (JavaScriptCore_h cfg) t = JavaScriptCore_h cfg t"
    by (simp add: twice_def header_defs directive_defs split: option.splits)
  show "twice (WPEWebKit_h cfg) t = WPEWebKit_h cfg t"
    by (simp add: twice_def header_defs directive_defs split: option.splits)
  show "twice (WebKitGTK_h cfg) t = WebKitGTK_h cfg t"
    by (simp add: twice_def header_defs directive_defs split: option.splits)
qed

subsection \<open>A missing native header\<close>

text \<open>
  Claim C5, as the claim states it, fails for \<^verbatim>\<open>WPEWebKit.h\<close>: with neither
  \<^verbatim>\<open>wpe/webkit.h\<close> nor \<^verbatim>\<open>gio/gio.h\<close> on the search path and \<^verbatim>\<open>glib.h\<close> on it,
  line 43 of the header includes a file that is not found.
\<close>

theorem absent_header_counterexample:
  "''wpe/webkit.h'' \<notin> available \<lparr>has_include_supported = True, available = {''glib.h''}\<rparr> \<and>
   WPEWebKit_h \<lparr>has_include_supported = True, available = {''glib.h''}\<rparr> fresh_tu
     = Inl (FileNotFound ''gio/gio.h'')"
  by (simp add: header_defs directive_defs fresh_tu_def)

text \<open>
  Claim C5, amended. Take a translation unit that has defined neither the header's guard
  nor its capability macro, and a toolchain in which the target native header is absent
  (both candidates, for JavaScriptCore). Then \<^verbatim>\<open>JavaScriptCore.h\<close> and
  \<^verbatim>\<open>WebKitGTK.h\<close> are processed without a fatal error and without a new diagnostic,
  and define their capability macro to \<open>0\<close>; so is \<^verbatim>\<open>WPEWebKit.h\<close> whenever
  \<^verbatim>\<open>gio/gio.h\<close> is available in case \<^verbatim>\<open>glib.h\<close> is found.
\<close>

theorem absent_header_degrades:
  "(macros t ''CWebKit_JavaScriptCore_h'' = None \<and>
    macros t ''CWEBKIT_HAS_JAVASCRIPTCORE'' = None \<and>
    ''JavaScriptCore/JavaScript.h'' \<notin> available cfg \<and> ''jsc/jsc.h'' \<notin> available cfg \<longrightarrow>
      completes (JavaScriptCore_h cfg t) \<and>
      diagnostics (JavaScriptCore_h cfg t) = diags t \<and>
      macro_value ''CWEBKIT_HAS_JAVASCRIPTCORE'' (JavaScriptCore_h cfg t) = Some ''0'') \<and>
   (macros t ''CWebKit_WPEWebKit_h'' = None \<and>
    macros t ''CWEBKIT_HAS_WPE'' = None \<and>
    ''wpe/webkit.h'' \<notin> available cfg \<and>
    (found cfg ''glib.h'' \<longrightarrow> ''gio/gio.h'' \<in> available cfg) \<longrightarrow>
      completes (WPEWebKit_h cfg t) \<and>
      diagnostics (WPEWebKit_h cfg t) = diags t \<and>
      macro_value ''CWEBKIT_HAS_WPE'' (WPEWebKit_h cfg t) = Some ''0'') \<and>
   (macros t ''CWebKit_WebKitGTK_h'' = None \<and>
    macros t ''CWEBKIT_HAS_GTK'' = None \<and>
    ''webkit2/webkit2.h'' \<notin> available cfg \<longrightarrow>
      completes (WebKitGTK_h cfg t) \<and>
      diagnostics (WebKitGTK_h cfg t) = diags t \<and>
      macro_value ''CWEBKIT_HAS_GTK'' (WebKitGTK_h cfg t) = Some ''0'')"
proof (intro conjI impI)
  assume j: "macros t ''CWebKit_JavaScriptCore_h'' = None \<and>
    macros t ''CWEBKIT_HAS_JAVASCRIPTCORE'' = None \<and>
    ''JavaScriptCore/JavaScript.h'' \<notin> available cfg \<and> ''jsc/jsc.h'' \<notin> available cfg"
  then show "completes (JavaScriptCore_h cfg t)"
    and "diagnostics (JavaScriptCore_h cfg t) = diags t"
    and "macro_value ''CWEBKIT_HAS_JAVASCRIPTCORE'' (JavaScriptCore_h cfg t) = Some ''0''"
    by (simp_all add: header_defs directive_defs observation_defs)
next
  assume w: "macros t ''CWebKit_WPEWebKit_h'' = None \<and>
    macros t ''CWEBKIT_HAS_WPE'' = None \<and>
    ''wpe/webkit.h'' \<notin> available cfg \<and>
    (found cfg ''glib.h'' \<longrightarrow> ''gio/gio.h'' \<in> available cfg)"
  then show "completes (WPEWebKit_h cfg t)"
    and "diagnostics (WPEWebKit_h cfg t) = diags t"
    and "macro_value ''CWEBKIT_HAS_WPE'' (WPEWebKit_h cfg t) = Some ''0''"
    by (simp_all add: header_defs directive_defs observation_defs)
next
  assume g: "macros t ''CWebKit_WebKitGTK_h'' = None \<and>
    macros t ''CWEBKIT_HAS_GTK'' = None \<and>
    ''webkit2/webkit2.h'' \<notin> available cfg"
  then show "completes (WebKitGTK_h cfg t)"
    and "diagnostics (WebKitGTK_h cfg t) = diags t"
    and "macro_value ''CWEBKIT_HAS_GTK'' (WebKitGTK_h cfg t) = Some ''0''"
    by (simp_all add: header_defs directive_defs observation_defs)
qed

theorem absent_header_degrades_witness:
  "completes (JavaScriptCore_h
     \<lparr>has_include_supported = True, available = {''glib.h'', ''gio/gio.h''}\<rparr> fresh_tu) \<and>
   macro_value ''CWEBKIT_HAS_JAVASCRIPTCORE'' (JavaScriptCore_h
     \<lparr>has_include_supported = True, available = {''glib.h'', ''gio/gio.h''}\<rparr> fresh_tu)
       = Some ''0'' \<and>
   completes (WPEWebKit_h
     \<lparr>has_include_supported = True, available = {''glib.h'', ''gio/gio.h''}\<rparr> fresh_tu) \<and>
   diagnostics (WPEWebKit_h
     \<lparr>has_include_supported = True, available = {''glib.h'', ''gio/gio.h''}\<rparr> fresh_tu)
       = [] \<and>
   macro_value ''CWEBKIT_HAS_WPE'' (WPEWebKit_h
     \<lparr>has_include_supported = True, available = {''glib.h'', ''gio/gio.h''}\<rparr> fresh_tu)
       = Some ''0'' \<and>
   completes (WebKitGTK_h
     \<lparr>has_include_supported = True, available = {''glib.h'', ''gio/gio.h''}\<rparr> fresh_tu) \<and>
   macro_value ''CWEBKIT_HAS_GTK'' (WebKitGTK_h
     \<lparr>has_include_supported = True, available = {''glib.h'', ''gio/gio.h''}\<rparr> fresh_tu)
       = Some ''0''"
  using absent_header_degrades
    [of fresh_tu "\<lparr>has_include_supported = True, available = {''glib.h'', ''gio/gio.h''}\<rparr>"]
  by (simp add: fresh_tu_def found_def has_include_def)

subsection \<open>The capability macro is always 0 or 1\<close>

text \<open>
  Claim C6, as the claim states it, fails for \<^verbatim>\<open>WebKitGTK.h\<close> and for
  \<^verbatim>\<open>WPEWebKit.h\<close>. With \<^verbatim>\<open>webkit2/webkit2.h\<close> on the search path and
  \<^verbatim>\<open>gtk/gtk.h\<close> not, \<^verbatim>\<open>WebKitGTK.h\<close> ends the compilation on line 30, before the
  \<^verbatim>\<open>#define\<close> of line 31, and \<^verbatim>\<open>CWEBKIT_HAS_GTK\<close> is left undefined. With
  \<^verbatim>\<open>glib.h\<close> on the search path and \<^verbatim>\<open>gio/gio.h\<close> not, \<^verbatim>\<open>WPEWebKit.h\<close> ends the
  compilation on line 43 and no translation unit with a value of \<^verbatim>\<open>CWEBKIT_HAS_WPE\<close>
  comes out of it.
\<close>

theorem capability_zero_or_one_counterexample:
  "\<not> completes (WebKitGTK_h
     \<lparr>has_include_supported = True, available = {''webkit2/webkit2.h''}\<rparr> fresh_tu) \<and>
   macro_value ''CWEBKIT_HAS_GTK'' (WebKitGTK_h
     \<lparr>has_include_supported = True, available = {''webkit2/webkit2.h''}\<rparr> fresh_tu)
       = None \<and>
   \<not> completes (WPEWebKit_h
     \<lparr>has_include_supported = True, available = {''glib.h''}\<rparr> fresh_tu) \<and>
   macro_value ''CWEBKIT_HAS_WPE'' (WPEWebKit_h
     \<lparr>has_include_supported = True, available = {''glib.h''}\<rparr> fresh_tu) = None"
  by (simp add: header_defs directive_defs observation_defs fresh_tu_def)

text \<open>
  Claim C6, amended. Take a translation unit that has not defined the header's guard,
  and a toolchain, with or without \<^verbatim>\<open>__has_include\<close>, on which a header that the shim
  includes under the probe of another is available whenever that probe succeeds:
  \<^verbatim>\<open>gio/gio.h\<close> when \<^verbatim>\<open>glib.h\<close> is found, for \<^verbatim>\<open>WPEWebKit.h\<close>; \<^verbatim>\<open>gtk/gtk.h\<close> when
  \<^verbatim>\<open>webkit2/webkit2.h\<close> is found, for \<^verbatim>\<open>WebKitGTK.h\<close>; nothing to ask for
  \<^verbatim>\<open>JavaScriptCore.h\<close>. Then the header is processed to the end and its capability
  macro is defined, with replacement text \<open>0\<close> or \<open>1\<close>.
\<close>

theorem capability_zero_or_one:
  "(macros t ''CWebKit_JavaScriptCore_h'' = None \<longrightarrow>
      completes (JavaScriptCore_h cfg t) \<and>
      macro_value ''CWEBKIT_HAS_JAVASCRIPTCORE'' (JavaScriptCore_h cfg t)
        \<in> {Some ''0'', Some ''1''}) \<and>
   (macros t ''CWebKit_WPEWebKit_h'' = None \<and>
    (found cfg ''glib.h'' \<longrightarrow> ''gio/gio.h'' \<in> available cfg) \<longrightarrow>
      completes (WPEWebKit_h cfg t) \<and>
      macro_value ''CWEBKIT_HAS_WPE'' (WPEWebKit_h cfg t) \<in> {Some ''0'', Some ''1''}) \<and>
   (macros t ''CWebKit_WebKitGTK_h'' = None \<and>
    (found cfg ''webkit2/webkit2.h'' \<longrightarrow> ''gtk/gtk.h'' \<in> available cfg) \<longrightarrow>
      completes (WebKitGTK_h cfg t) \<and>
      macro_value ''CWEBKIT_HAS_GTK'' (WebKitGTK_h cfg t) \<in> {Some ''0'', Some ''1''})"
proof (intro conjI impI)
  assume "macros t ''CWebKit_JavaScriptCore_h'' = None"
  then show "macro_value ''CWEBKIT_HAS_JAVASCRIPTCORE'' (JavaScriptCore_h cfg t)
      \<in> {Some ''0'', Some ''1''}"
    by (simp add: header_defs directive_defs observation_defs split: option.splits)
  show "completes (JavaScriptCore_h cfg t)"
    by (rule JavaScriptCore_h_completes)
next
  assume w: "macros t ''CWebKit_WPEWebKit_h'' = None \<and>
    (found cfg ''glib.h'' \<longrightarrow> ''gio/gio.h'' \<in> available cfg)"
  then show "completes (WPEWebKit_h cfg t)"
    by (simp add: WPEWebKit_h_completes_iff)
  from w show "macro_value ''CWEBKIT_HAS_WPE'' (WPEWebKit_h cfg t) \<in> {Some ''0'', Some ''1''}"
    by (simp add: header_defs directive_defs observation_defs split: option.splits)
next
  assume g: "macros t ''CWebKit_WebKitGTK_h'' = None \<and>
    (found cfg ''webkit2/webkit2.h'' \<longrightarrow> ''gtk/gtk.h'' \<in> available cfg)"
  then show "completes (WebKitGTK_h cfg t)"
    by (simp add: WebKitGTK_h_completes_iff)
  from g show "macro_value ''CWEBKIT_HAS_GTK'' (WebKitGTK_h cfg t) \<in> {Some ''0'', Some ''1''}"
    by (simp add: header_defs directive_defs observation_defs split: option.splits)
qed

theorem capability_zero_or_one_witness:
  "completes (JavaScriptCore_h 
     (\<lparr>has_include_supported = True, available =
        {''JavaScriptCore/JavaScript.h'', ''wpe/webkit.h'', ''glib.h'', ''gio/gio.h'',
         ''webkit2/webkit2.h'', ''gtk/gtk.h''}\<rparr>) fresh_tu) \<and>
   completes (WPEWebKit_h 
     (\<lparr>has_include_supported = True, available =
        {''JavaScriptCore/JavaScript.h'', ''wpe/webkit.h'', ''glib.h'', ''gio/gio.h'',
         ''webkit2/webkit2.h'', ''gtk/gtk.h''}\<rparr>) fresh_tu) \<and>
   completes (WebKitGTK_h 
     (\<lparr>has_include_supported = True, available =
        {''JavaScriptCore/JavaScript.h'', ''wpe/webkit.h'', ''glib.h'', ''gio/gio.h'',
         ''webkit2/webkit2.h'', ''gtk/gtk.h''}\<rparr>) fresh_tu) \<and>
   macro_value ''CWEBKIT_HAS_JAVASCRIPTCORE'' (JavaScriptCore_h 
     (\<lparr>has_include_supported = True, available =
        {''JavaScriptCore/JavaScript.h'', ''wpe/webkit.h'', ''glib.h'', ''gio/gio.h'',
         ''webkit2/webkit2.h'', ''gtk/gtk.h''}\<rparr>) fresh_tu)
     \<in> {Some ''0'', Some ''1''} \<and>
   macro_value ''CWEBKIT_HAS_WPE'' (WPEWebKit_h 
     (\<lparr>has_include_supported = True, available =
        {''JavaScriptCore/JavaScript.h'', ''wpe/webkit.h'', ''glib.h'', ''gio/gio.h'',
         ''webkit2/webkit2.h'', ''gtk/gtk.h''}\<rparr>) fresh_tu) \<in> {Some ''0'', Some ''1''} \<and>
   macro_value ''CWEBKIT_HAS_GTK'' (WebKitGTK_h 
     (\<lparr>has_include_supported = True, available =
        {''JavaScriptCore/JavaScript.h'', ''wpe/webkit.h'', ''glib.h'', ''gio/gio.h'',
         ''webkit2/webkit2.h'', ''gtk/gtk.h''}\<rparr>) fresh_tu) \<in> {Some ''0'', Some ''1''} \<and>
   completes (JavaScriptCore_h 
     (\<lparr>has_include_supported = False, available =
        {''wpe/webkit.h'', ''glib.h'', ''webkit2/webkit2.h''}\<rparr>) fresh_tu) \<and>
   completes (WPEWebKit_h 
     (\<lparr>has_include_supported = False, available =
        {''wpe/webkit.h'', ''glib.h'', ''webkit2/webkit2.h''}\<rparr>) fresh_tu) \<and>
   completes (WebKitGTK_h 
     (\<lparr>has_include_supported = False, available =
        {''wpe/webkit.h'', ''glib.h'', ''webkit2/webkit2.h''}\<rparr>) fresh_tu) \<and>
   macro_value ''CWEBKIT_HAS_JAVASCRIPTCORE'' (JavaScriptCore_h 
     (\<lparr>has_include_supported = False, available =
        {''wpe/webkit.h'', ''glib.h'', ''webkit2/webkit2.h''}\<rparr>) fresh_tu)
     \<in> {Some ''0'', Some ''1''} \<and>
   macro_value ''CWEBKIT_HAS_WPE'' (WPEWebKit_h 
     (\<lparr>has_include_supported = False, available =
        {''wpe/webkit.h'', ''glib.h'', ''webkit2/webkit2.h''}\<rparr>) fresh_tu) \<in> {Some ''0'', Some ''1''} \<and>
   macro_value ''CWEBKIT_HAS_GTK'' (WebKitGTK_h 
     (\<lparr>has_include_supported = False, available =
        {''wpe/webkit.h'', ''glib.h'', ''webkit2/webkit2.h''}\<rparr>) fresh_tu) \<in> {Some ''0'', Some ''1''}"
  using capability_zero_or_one [of fresh_tu "\<lparr>has_include_supported = True, available =
        {''JavaScriptCore/JavaScript.h'', ''wpe/webkit.h'', ''glib.h'', ''gio/gio.h'',
         ''webkit2/webkit2.h'', ''gtk/gtk.h''}\<rparr>"]
    capability_zero_or_one [of fresh_tu "\<lparr>has_include_supported = False, available =
        {''wpe/webkit.h'', ''glib.h'', ''webkit2/webkit2.h''}\<rparr>"]
  by (simp add: fresh_tu_def found_def has_include_def)

subsection \<open>The outcomes of a header\<close>

text \<open>
  Claim C7, as the claim states it, fails for \<^verbatim>\<open>JavaScriptCore.h\<close>: from an empty
  translation unit, on three toolchains that all have \<^verbatim>\<open>__has_include\<close>, the pair of
  the macro's value and the set of included headers takes three different values, and
  the first two toolchains both have a native header found.
\<close>

theorem two_outcomes_counterexample:
  "outcome ''CWEBKIT_HAS_JAVASCRIPTCORE'' JavaScriptCore_h
     \<lparr>has_include_supported = True, available = {''JavaScriptCore/JavaScript.h''}\<rparr>
       = (Some ''1'', {''JavaScriptCore/JavaScript.h''}) \<and>
   outcome ''CWEBKIT_HAS_JAVASCRIPTCORE'' JavaScriptCore_h
     \<lparr>has_include_supported = True, available = {''jsc/jsc.h''}\<rparr>
       = (Some ''1'', {''jsc/jsc.h''}) \<and>
   outcome ''CWEBKIT_HAS_JAVASCRIPTCORE'' JavaScriptCore_h
     \<lparr>has_include_supported = True, available = {}\<rparr>
       = (Some ''0'', {}) \<and>
   outcome ''CWEBKIT_HAS_JAVASCRIPTCORE'' JavaScriptCore_h
     \<lparr>has_include_supported = True, available = {''JavaScriptCore/JavaScript.h''}\<rparr>
     \<noteq> outcome ''CWEBKIT_HAS_JAVASCRIPTCORE'' JavaScriptCore_h
     \<lparr>has_include_supported = True, available = {''jsc/jsc.h''}\<rparr> \<and>
   outcome ''CWEBKIT_HAS_JAVASCRIPTCORE'' JavaScriptCore_h
     \<lparr>has_include_supported = True, available = {''jsc/jsc.h''}\<rparr>
     \<noteq> outcome ''CWEBKIT_HAS_JAVASCRIPTCORE'' JavaScriptCore_h
     \<lparr>has_include_supported = True, available = {}\<rparr> \<and>
   outcome ''CWEBKIT_HAS_JAVASCRIPTCORE'' JavaScriptCore_h
     \<lparr>has_include_supported = True, available = {''JavaScriptCore/JavaScript.h''}\<rparr>
     \<noteq> outcome ''CWEBKIT_HAS_JAVASCRIPTCORE'' JavaScriptCore_h
     \<lparr>has_include_supported = True, available = {}\<rparr>"
  by (simp add: outcome_def header_defs directive_defs observation_defs fresh_tu_def)

lemma JavaScriptCore_h_outcome:
  "outcome ''CWEBKIT_HAS_JAVASCRIPTCORE'' JavaScriptCore_h c =
     (if found c ''JavaScriptCore/JavaScript.h''
        then (Some ''1'', {''JavaScriptCore/JavaScript.h''})
      else if found c ''jsc/jsc.h'' then (Some ''1'', {''jsc/jsc.h''})
      else (Some ''0'', {}))"
  by (simp add: outcome_def header_defs directive_defs observation_defs fresh_tu_def)

lemma WPEWebKit_h_outcome:
  "completes (WPEWebKit_h c fresh_tu) \<Longrightarrow>
   outcome ''CWEBKIT_HAS_WPE'' WPEWebKit_h c =
     (if found c ''wpe/webkit.h''
        then (if found c ''glib.h''
                then (Some ''1'', {''wpe/webkit.h'', ''glib.h'', ''gio/gio.h''})
              else (Some ''1'', {''wpe/webkit.h''}))
      else (if found c ''glib.h'' then (Some ''0'', {''glib.h'', ''gio/gio.h''})
            else (Some ''0'', {})))"
  by (auto simp add: outcome_def header_defs directive_defs observation_defs fresh_tu_def
      split: if_splits)

lemma WebKitGTK_h_outcome:
  "completes (WebKitGTK_h c fresh_tu) \<Longrightarrow>
   outcome ''CWEBKIT_HAS_GTK'' WebKitGTK_h c =
     (if found c ''webkit2/webkit2.h''
        then (Some ''1'', {''webkit2/webkit2.h'', ''gtk/gtk.h''})
      else (Some ''0'', {}))"
  by (auto simp add: outcome_def header_defs directive_defs observation_defs fresh_tu_def
      split: if_splits)


text \<open>
  Claim C7, amended. From an empty translation unit, over all toolchains on which the
  header is processed to the end, the capability macro takes two values, decided by
  whether the probe found the target native header alone. The pair of the macro's value
  and the set of included headers takes exactly two values for \<^verbatim>\<open>WebKitGTK.h\<close>, three
  for \<^verbatim>\<open>JavaScriptCore.h\<close> (which candidate was included) and four for
  \<^verbatim>\<open>WPEWebKit.h\<close> (whether the GLib headers were included).
\<close>

theorem outcomes_of_headers:
  "outcome ''CWEBKIT_HAS_JAVASCRIPTCORE'' JavaScriptCore_h `
       {c. completes (JavaScriptCore_h c fresh_tu)} =
     {(Some ''1'', {''JavaScriptCore/JavaScript.h''}), (Some ''1'', {''jsc/jsc.h''}),
      (Some ''0'', {})} \<and>
   outcome ''CWEBKIT_HAS_WPE'' WPEWebKit_h ` {c. completes (WPEWebKit_h c fresh_tu)} =
     {(Some ''1'', {''wpe/webkit.h'', ''glib.h'', ''gio/gio.h''}),
      (Some ''1'', {''wpe/webkit.h''}),
      (Some ''0'', {''glib.h'', ''gio/gio.h''}), (Some ''0'', {})} \<and>
   outcome ''CWEBKIT_HAS_GTK'' WebKitGTK_h ` {c. completes (WebKitGTK_h c fresh_tu)} =
     {(Some ''1'', {''webkit2/webkit2.h'', ''gtk/gtk.h''}), (Some ''0'', {})} \<and>
   fst (outcome ''CWEBKIT_HAS_JAVASCRIPTCORE'' JavaScriptCore_h cfg) =
     (if found cfg ''JavaScriptCore/JavaScript.h'' \<or> found cfg ''jsc/jsc.h''
      then Some ''1'' else Some ''0'') \<and>
   (completes (WPEWebKit_h cfg fresh_tu) \<longrightarrow>
      fst (outcome ''CWEBKIT_HAS_WPE'' WPEWebKit_h cfg) =
        (if found cfg ''wpe/webkit.h'' then Some ''1'' else Some ''0'')) \<and>
   (completes (WebKitGTK_h cfg fresh_tu) \<longrightarrow>
      fst (outcome ''CWEBKIT_HAS_GTK'' WebKitGTK_h cfg) =
        (if found cfg ''webkit2/webkit2.h'' then Some ''1'' else Some ''0''))"
proof (intro conjI impI)
  let ?J = "outcome ''CWEBKIT_HAS_JAVASCRIPTCORE'' JavaScriptCore_h"
  let ?W = "outcome ''CWEBKIT_HAS_WPE'' WPEWebKit_h"
  let ?G = "outcome ''CWEBKIT_HAS_GTK'' WebKitGTK_h"
  let ?cfg = "\<lambda>A. \<lparr>has_include_supported = True, available = A\<rparr>"
  show "?J ` {c. completes (JavaScriptCore_h c fresh_tu)} =
     {(Some ''1'', {''JavaScriptCore/JavaScript.h''}), (Some ''1'', {''jsc/jsc.h''}),
      (Some ''0'', {})}" (is "?L = ?R")
  proof
    show "?L \<subseteq> ?R"
      by (auto simp add: JavaScriptCore_h_outcome)
    have "?J (?cfg {''JavaScriptCore/JavaScript.h''}) \<in> ?L"
      and "?J (?cfg {''jsc/jsc.h''}) \<in> ?L" and "?J (?cfg {}) \<in> ?L"
      by (simp_all add: JavaScriptCore_h_completes)
    then show "?R \<subseteq> ?L"
      by (simp add: JavaScriptCore_h_outcome found_def has_include_def)
  qed
  show "?W ` {c. completes (WPEWebKit_h c fresh_tu)} =
     {(Some ''1'', {''wpe/webkit.h'', ''glib.h'', ''gio/gio.h''}),
      (Some ''1'', {''wpe/webkit.h''}),
      (Some ''0'', {''glib.h'', ''gio/gio.h''}), (Some ''0'', {})}" (is "?L = ?R")
  proof
    show "?L \<subseteq> ?R"
      by (auto simp add: WPEWebKit_h_outcome)
    have c: "completes (WPEWebKit_h (?cfg {''wpe/webkit.h'', ''glib.h'', ''gio/gio.h''}) fresh_tu)"
      "completes (WPEWebKit_h (?cfg {''wpe/webkit.h''}) fresh_tu)"
      "completes (WPEWebKit_h (?cfg {''glib.h'', ''gio/gio.h''}) fresh_tu)"
      "completes (WPEWebKit_h (?cfg {}) fresh_tu)"
      by (simp_all add: WPEWebKit_h_completes_iff fresh_tu_def found_def has_include_def)
    then have "?W (?cfg {''wpe/webkit.h'', ''glib.h'', ''gio/gio.h''}) \<in> ?L"
      and "?W (?cfg {''wpe/webkit.h''}) \<in> ?L"
      and "?W (?cfg {''glib.h'', ''gio/gio.h''}) \<in> ?L"
      and "?W (?cfg {}) \<in> ?L"
      by simp_all
    then show "?R \<subseteq> ?L"
      using c by (simp add: WPEWebKit_h_outcome found_def has_include_def)
  qed
  show "?G ` {c. completes (WebKitGTK_h c fresh_tu)} =
     {(Some ''1'', {''webkit2/webkit2.h'', ''gtk/gtk.h''}), (Some ''0'', {})}" (is "?L = ?R")
  proof
    show "?L \<subseteq> ?R"
      by (auto simp add: WebKitGTK_h_outcome)
    have c: "completes (WebKitGTK_h (?cfg {''webkit2/webkit2.h'', ''gtk/gtk.h''}) fresh_tu)"
      "completes (WebKitGTK_h (?cfg {}) fresh_tu)"
      by (simp_all add: WebKitGTK_h_completes_iff fresh_tu_def found_def has_include_def)
    then have "?G (?cfg {''webkit2/webkit2.h'', ''gtk/gtk.h''}) \<in> ?L"
      and "?G (?cfg {}) \<in> ?L"
      by simp_all
    then show "?R \<subseteq> ?L"
      using c by (simp add: WebKitGTK_h_outcome found_def has_include_def)
  qed
  show "fst (?J cfg) =
     (if found cfg ''JavaScriptCore/JavaScript.h'' \<or> found cfg ''jsc/jsc.h''
      then Some ''1'' else Some ''0'')"
    by (simp add: JavaScriptCore_h_outcome)
  show "fst (?W cfg) = (if found cfg ''wpe/webkit.h'' then Some ''1'' else Some ''0'')"
    if "completes (WPEWebKit_h cfg fresh_tu)"
    using that by (simp add: WPEWebKit_h_outcome)
  show "fst (?G cfg) = (if found cfg ''webkit2/webkit2.h'' then Some ''1'' else Some ''0'')"
    if "completes (WebKitGTK_h cfg fresh_tu)"
    using that by (simp add: WebKitGTK_h_outcome)
qed

theorem outcomes_of_headers_witness:
  "completes (WPEWebKit_h
     \<lparr>has_include_supported = True, available = {''wpe/webkit.h''}\<rparr> fresh_tu) \<and>
   completes (WebKitGTK_h
     \<lparr>has_include_supported = True, available = {''wpe/webkit.h''}\<rparr> fresh_tu) \<and>
   fst (outcome ''CWEBKIT_HAS_JAVASCRIPTCORE'' JavaScriptCore_h
     \<lparr>has_include_supported = True, available = {''wpe/webkit.h''}\<rparr>) = Some ''0'' \<and>
   fst (outcome ''CWEBKIT_HAS_WPE'' WPEWebKit_h
     \<lparr>has_include_supported = True, available = {''wpe/webkit.h''}\<rparr>) = Some ''1'' \<and>
   fst (outcome ''CWEBKIT_HAS_GTK'' WebKitGTK_h
     \<lparr>has_include_supported = True, available = {''wpe/webkit.h''}\<rparr>) = Some ''0'' \<and>
   (Some ''1'', {''jsc/jsc.h''}) \<in>
     outcome ''CWEBKIT_HAS_JAVASCRIPTCORE'' JavaScriptCore_h `
       {c. completes (JavaScriptCore_h c fresh_tu)}"
  using outcomes_of_headers
    [of "\<lparr>has_include_supported = True, available = {''wpe/webkit.h''}\<rparr>"]
  by (simp add: WPEWebKit_h_completes_iff WebKitGTK_h_completes_iff fresh_tu_def found_def
      has_include_def)

subsection \<open>A compiler without the probe\<close>

text \<open>
  Claim C8. On a compiler that does not have \<^verbatim>\<open>__has_include\<close>, in a translation unit
  that has not defined the header's guard, each of the three headers is processed to
  the end, defines its capability macro to \<open>0\<close> and includes no header at all,
  whatever the search path holds.
\<close>

theorem no_probe_no_capability:
  "\<not> has_include_supported cfg \<longrightarrow>
     (macros t ''CWebKit_JavaScriptCore_h'' = None \<longrightarrow>
        completes (JavaScriptCore_h cfg t) \<and>
        macro_value ''CWEBKIT_HAS_JAVASCRIPTCORE'' (JavaScriptCore_h cfg t) = Some ''0'' \<and>
        inclusions (JavaScriptCore_h cfg t) = included t) \<and>
     (macros t ''CWebKit_WPEWebKit_h'' = None \<longrightarrow>
        completes (WPEWebKit_h cfg t) \<and>
        macro_value ''CWEBKIT_HAS_WPE'' (WPEWebKit_h cfg t) = Some ''0'' \<and>
        inclusions (WPEWebKit_h cfg t) = included t) \<and>
     (macros t ''CWebKit_WebKitGTK_h'' = None \<longrightarrow>
        completes (WebKitGTK_h cfg t) \<and>
        macro_value ''CWEBKIT_HAS_GTK'' (WebKitGTK_h cfg t) = Some ''0'' \<and>
        inclusions (WebKitGTK_h cfg t) = included t)"
proof (intro impI)
  assume n: "\<not> has_include_supported cfg"
  have j: "completes (JavaScriptCore_h cfg t) \<and>
      macro_value ''CWEBKIT_HAS_JAVASCRIPTCORE'' (JavaScriptCore_h cfg t) = Some ''0'' \<and>
      inclusions (JavaScriptCore_h cfg t) = included t"
    if "macros t ''CWebKit_JavaScriptCore_h'' = None"
    using n that by (simp add: header_defs directive_defs observation_defs split: option.splits)
  have w: "completes (WPEWebKit_h cfg t) \<and>
      macro_value ''CWEBKIT_HAS_WPE'' (WPEWebKit_h cfg t) = Some ''0'' \<and>
      inclusions (WPEWebKit_h cfg t) = included t"
    if "macros t ''CWebKit_WPEWebKit_h'' = None"
    using n that by (simp add: header_defs directive_defs observation_defs split: option.splits)
  have g: "completes (WebKitGTK_h cfg t) \<and>
      macro_value ''CWEBKIT_HAS_GTK'' (WebKitGTK_h cfg t) = Some ''0'' \<and>
      inclusions (WebKitGTK_h cfg t) = included t"
    if "macros t ''CWebKit_WebKitGTK_h'' = None"
    using n that by (simp add: header_defs directive_defs observation_defs split: option.splits)
  from j w g show
    "(macros t ''CWebKit_JavaScriptCore_h'' = None \<longrightarrow>
        completes (JavaScriptCore_h cfg t) \<and>
        macro_value ''CWEBKIT_HAS_JAVASCRIPTCORE'' (JavaScriptCore_h cfg t) = Some ''0'' \<and>
        inclusions (JavaScriptCore_h cfg t) = included t) \<and>
     (macros t ''CWebKit_WPEWebKit_h'' = None \<longrightarrow>
        completes (WPEWebKit_h cfg t) \<and>
        macro_value ''CWEBKIT_HAS_WPE'' (WPEWebKit_h cfg t) = Some ''0'' \<and>
        inclusions (WPEWebKit_h cfg t) = included t) \<and>
     (macros t ''CWebKit_WebKitGTK_h'' = None \<longrightarrow>
        completes (WebKitGTK_h cfg t) \<and>
        macro_value ''CWEBKIT_HAS_GTK'' (WebKitGTK_h cfg t) = Some ''0'' \<and>
        inclusions (WebKitGTK_h cfg t) = included t)"
    by blast
qed

theorem no_probe_no_capability_witness:
  "\<not> has_include_supported \<lparr>has_include_supported = False, available =
        {''JavaScriptCore/JavaScript.h'', ''jsc/jsc.h'', ''wpe/webkit.h'', ''glib.h'',
         ''gio/gio.h'', ''webkit2/webkit2.h'', ''gtk/gtk.h''}\<rparr> \<and>
   macro_value ''CWEBKIT_HAS_JAVASCRIPTCORE'' (JavaScriptCore_h
     \<lparr>has_include_supported = False, available =
        {''JavaScriptCore/JavaScript.h'', ''jsc/jsc.h'', ''wpe/webkit.h'', ''glib.h'',
         ''gio/gio.h'', ''webkit2/webkit2.h'', ''gtk/gtk.h''}\<rparr> fresh_tu) = Some ''0'' \<and>
   macro_value ''CWEBKIT_HAS_WPE'' (WPEWebKit_h
     \<lparr>has_include_supported = False, available =
        {''JavaScriptCore/JavaScript.h'', ''jsc/jsc.h'', ''wpe/webkit.h'', ''glib.h'',
         ''gio/gio.h'', ''webkit2/webkit2.h'', ''gtk/gtk.h''}\<rparr> fresh_tu) = Some ''0'' \<and>
   macro_value ''CWEBKIT_HAS_GTK'' (WebKitGTK_h
     \<lparr>has_include_supported = False, available =
        {''JavaScriptCore/JavaScript.h'', ''jsc/jsc.h'', ''wpe/webkit.h'', ''glib.h'',
         ''gio/gio.h'', ''webkit2/webkit2.h'', ''gtk/gtk.h''}\<rparr> fresh_tu) = Some ''0'' \<and>
   inclusions (JavaScriptCore_h
     \<lparr>has_include_supported = False, available =
        {''JavaScriptCore/JavaScript.h'', ''jsc/jsc.h'', ''wpe/webkit.h'', ''glib.h'',
         ''gio/gio.h'', ''webkit2/webkit2.h'', ''gtk/gtk.h''}\<rparr> fresh_tu) = [] \<and>
   inclusions (WPEWebKit_h
     \<lparr>has_include_supported = False, available =
        {''JavaScriptCore/JavaScript.h'', ''jsc/jsc.h'', ''wpe/webkit.h'', ''glib.h'',
         ''gio/gio.h'', ''webkit2/webkit2.h'', ''gtk/gtk.h''}\<rparr> fresh_tu) = [] \<and>
   inclusions (WebKitGTK_h
     \<lparr>has_include_supported = False, available =
        {''JavaScriptCore/JavaScript.h'', ''jsc/jsc.h'', ''wpe/webkit.h'', ''glib.h'',
         ''gio/gio.h'', ''webkit2/webkit2.h'', ''gtk/gtk.h''}\<rparr> fresh_tu) = []"
  using no_probe_no_capability
    [of "\<lparr>has_include_supported = False, available =
        {''JavaScriptCore/JavaScript.h'', ''jsc/jsc.h'', ''wpe/webkit.h'', ''glib.h'',
         ''gio/gio.h'', ''webkit2/webkit2.h'', ''gtk/gtk.h''}\<rparr>" fresh_tu]
  by (simp add: fresh_tu_def)

subsection \<open>The two candidates of JavaScriptCore\<close>

text \<open>
  Claim C9. On a compiler that has \<^verbatim>\<open>__has_include\<close>, in a translation unit that has not
  defined the guard, \<^verbatim>\<open>JavaScriptCore.h\<close> tries its two candidates in order: when
  \<^verbatim>\<open>JavaScriptCore/JavaScript.h\<close> is available it is the one header included, also
  when \<^verbatim>\<open>jsc/jsc.h\<close> is available too; \<^verbatim>\<open>jsc/jsc.h\<close> is the one header included when
  it is available and the first candidate is not; nothing is included when neither is;
  and the capability macro is \<open>1\<close> exactly when at least one of the two is available.
\<close>

theorem javascriptcore_preference:
  "has_include_supported cfg \<and> macros t ''CWebKit_JavaScriptCore_h'' = None \<longrightarrow>
     completes (JavaScriptCore_h cfg t) \<and>
     inclusions (JavaScriptCore_h cfg t) =
       included t @
         (if ''JavaScriptCore/JavaScript.h'' \<in> available cfg
            then [''JavaScriptCore/JavaScript.h'']
          else if ''jsc/jsc.h'' \<in> available cfg then [''jsc/jsc.h'']
          else []) \<and>
     (macro_value ''CWEBKIT_HAS_JAVASCRIPTCORE'' (JavaScriptCore_h cfg t) = Some ''1'') =
       (''JavaScriptCore/JavaScript.h'' \<in> available cfg \<or> ''jsc/jsc.h'' \<in> available cfg)"
proof (intro conjI impI)
  assume a: "has_include_supported cfg \<and> macros t ''CWebKit_JavaScriptCore_h'' = None"
  show "completes (JavaScriptCore_h cfg t)"
    by (rule JavaScriptCore_h_completes)
  from a show "inclusions (JavaScriptCore_h cfg t) =
       included t @
         (if ''JavaScriptCore/JavaScript.h'' \<in> available cfg
            then [''JavaScriptCore/JavaScript.h'']
          else if ''jsc/jsc.h'' \<in> available cfg then [''jsc/jsc.h'']
          else [])"
    by (simp add: header_defs directive_defs observation_defs split: option.splits)
  from a show "(macro_value ''CWEBKIT_HAS_JAVASCRIPTCORE'' (JavaScriptCore_h cfg t) = Some ''1'') =
       (''JavaScriptCore/JavaScript.h'' \<in> available cfg \<or> ''jsc/jsc.h'' \<in> available cfg)"
    by (simp add: header_defs directive_defs observation_defs split: option.splits)
qed

theorem javascriptcore_preference_witness:
  "has_include_supported \<lparr>has_include_supported = True, available =
      {''JavaScriptCore/JavaScript.h'', ''jsc/jsc.h''}\<rparr> \<and>
   macros fresh_tu ''CWebKit_JavaScriptCore_h'' = None \<and>
   inclusions (JavaScriptCore_h \<lparr>has_include_supported = True, available =
      {''JavaScriptCore/JavaScript.h'', ''jsc/jsc.h''}\<rparr> fresh_tu)
     = [''JavaScriptCore/JavaScript.h''] \<and>
   macro_value ''CWEBKIT_HAS_JAVASCRIPTCORE'' (JavaScriptCore_h
     \<lparr>has_include_supported = True, available =
        {''JavaScriptCore/JavaScript.h'', ''jsc/jsc.h''}\<rparr> fresh_tu) = Some ''1''"
  using javascriptcore_preference
    [of "\<lparr>has_include_supported = True, available =
      {''JavaScriptCore/JavaScript.h'', ''jsc/jsc.h''}\<rparr>" fresh_tu]
  by (simp add: fresh_tu_def)

subsection \<open>The GLib headers of WPEWebKit.h\<close>

text \<open>
  Claim C10, as the claim states it, fails: with \<^verbatim>\<open>glib.h\<close> and \<^verbatim>\<open>gio/gio.h\<close> on
  the search path of a compiler without \<^verbatim>\<open>__has_include\<close>, the group of lines 40 to 45
  is skipped and \<^verbatim>\<open>WPEWebKit.h\<close> includes nothing; and with \<^verbatim>\<open>glib.h\<close> on the search
  path without \<^verbatim>\<open>gio/gio.h\<close>, line 43 ends the compilation.
\<close>

theorem glib_always_visible_counterexample:
  "''glib.h'' \<in> available
     \<lparr>has_include_supported = False, available = {''glib.h'', ''gio/gio.h''}\<rparr> \<and>
   completes (WPEWebKit_h
     \<lparr>has_include_supported = False, available = {''glib.h'', ''gio/gio.h''}\<rparr> fresh_tu) \<and>
   visible (WPEWebKit_h
     \<lparr>has_include_supported = False, available = {''glib.h'', ''gio/gio.h''}\<rparr> fresh_tu)
       = {} \<and>
   ''glib.h'' \<in> available \<lparr>has_include_supported = True, available = {''glib.h''}\<rparr> \<and>
   \<not> completes (WPEWebKit_h
     \<lparr>has_include_supported = True, available = {''glib.h''}\<rparr> fresh_tu) \<and>
   visible (WPEWebKit_h
     \<lparr>has_include_supported = True, available = {''glib.h''}\<rparr> fresh_tu) = {}"
  by (simp add: header_defs directive_defs observation_defs fresh_tu_def)

text \<open>
  Claim C10, amended. On a compiler that has \<^verbatim>\<open>__has_include\<close>, in a translation unit
  that has not defined the guard, and with \<^verbatim>\<open>glib.h\<close> and \<^verbatim>\<open>gio/gio.h\<close> both
  available, \<^verbatim>\<open>WPEWebKit.h\<close> is processed to the end and both GLib headers are visible,
  whether or not \<^verbatim>\<open>wpe/webkit.h\<close> was found: also when \<^verbatim>\<open>CWEBKIT_HAS_WPE\<close> is
  \<open>0\<close>.
\<close>

theorem glib_visible_without_wpe:
  "has_include_supported cfg \<and> macros t ''CWebKit_WPEWebKit_h'' = None \<and>
   ''glib.h'' \<in> available cfg \<and> ''gio/gio.h'' \<in> available cfg \<longrightarrow>
     completes (WPEWebKit_h cfg t) \<and>
     ''glib.h'' \<in> visible (WPEWebKit_h cfg t) \<and>
     ''gio/gio.h'' \<in> visible (WPEWebKit_h cfg t) \<and>
     inclusions (WPEWebKit_h cfg t) =
       included t @
         (if ''wpe/webkit.h'' \<in> available cfg then [''wpe/webkit.h''] else []) @
         [''glib.h'', ''gio/gio.h''] \<and>
     macro_value ''CWEBKIT_HAS_WPE'' (WPEWebKit_h cfg t) =
       (if ''wpe/webkit.h'' \<in> available cfg then Some ''1'' else Some ''0'')"
proof (intro conjI impI)
  assume a: "has_include_supported cfg \<and> macros t ''CWebKit_WPEWebKit_h'' = None \<and>
   ''glib.h'' \<in> available cfg \<and> ''gio/gio.h'' \<in> available cfg"
  then show "completes (WPEWebKit_h cfg t)"
    by (simp add: WPEWebKit_h_completes_iff)
  from a show "''glib.h'' \<in> visible (WPEWebKit_h cfg t)"
    and "''gio/gio.h'' \<in> visible (WPEWebKit_h cfg t)"
    by (simp_all add: header_defs directive_defs observation_defs split: option.splits)
  from a show "inclusions (WPEWebKit_h cfg t) =
       included t @
         (if ''wpe/webkit.h'' \<in> available cfg then [''wpe/webkit.h''] else []) @
         [''glib.h'', ''gio/gio.h'']"
    by (simp add: header_defs directive_defs observation_defs split: option.splits)
  from a show "macro_value ''CWEBKIT_HAS_WPE'' (WPEWebKit_h cfg t) =
       (if ''wpe/webkit.h'' \<in> available cfg then Some ''1'' else Some ''0'')"
    by (simp add: header_defs directive_defs observation_defs split: option.splits)
qed

theorem glib_visible_without_wpe_witness:
  "has_include_supported
     \<lparr>has_include_supported = True, available = {''glib.h'', ''gio/gio.h''}\<rparr> \<and>
   macros fresh_tu ''CWebKit_WPEWebKit_h'' = None \<and>
   ''glib.h'' \<in> available
     \<lparr>has_include_supported = True, available = {''glib.h'', ''gio/gio.h''}\<rparr> \<and>
   ''gio/gio.h'' \<in> available
     \<lparr>has_include_supported = True, available = {''glib.h'', ''gio/gio.h''}\<rparr> \<and>
   inclusions (WPEWebKit_h
     \<lparr>has_include_supported = True, available = {''glib.h'', ''gio/gio.h''}\<rparr> fresh_tu)
       = [''glib.h'', ''gio/gio.h''] \<and>
   macro_value ''CWEBKIT_HAS_WPE'' (WPEWebKit_h
     \<lparr>has_include_supported = True, available = {''glib.h'', ''gio/gio.h''}\<rparr> fresh_tu)
       = Some ''0''"
  using glib_visible_without_wpe
    [of "\<lparr>has_include_supported = True, available = {''glib.h'', ''gio/gio.h''}\<rparr>" fresh_tu]
  by (simp add: fresh_tu_def)

end
